theory Spec2Isabelle
  imports Complex_Main
begin

section \<open>Data model of \<^verbatim>\<open>api.py\<close>\<close>

text \<open>
  \<^verbatim>\<open>ProductoBase\<close> carries the five product fields; \<^verbatim>\<open>ProductoResponse\<close>
  and the mapped class \<^verbatim>\<open>Producto\<close> add the primary key \<^verbatim>\<open>id\<close>. A row of the
  table \<^verbatim>\<open>productos\<close> and a response entity therefore share the record
  \<open>producto\<close>; its key is named \<open>producto_id\<close>, as the path parameter is.
  The four columns declared \<^verbatim>\<open>nullable=False\<close> have no null value in a row; only
  \<^verbatim>\<open>categoria\<close> is optional. Python's \<^verbatim>\<open>float\<close> price is a real number here
  (only its sign and its equality are ever used), Python's \<^verbatim>\<open>int\<close> is unbounded,
  and one \<open>char\<close> stands for one character of a Python \<^verbatim>\<open>str\<close>.
\<close>

record producto_base =
  nombre :: string
  descripcion :: string
  precio :: real
  stock :: int
  categoria :: "string option"

record producto = producto_base +
  producto_id :: int

text \<open>
  A request body is a JSON object. Each of the five keys the models read is either
  missing from the object, given as \<^verbatim>\<open>null\<close>, or given with a value of the
  field's type.
\<close>

datatype 'a campo = Ausente | Nulo | Valor 'a

record cuerpo =
  c_nombre :: "string campo"
  c_descripcion :: "string campo"
  c_precio :: "real campo"
  c_stock :: "int campo"
  c_categoria :: "string campo"

definition sin_campos :: cuerpo where
  "sin_campos = \<lparr>c_nombre = Ausente, c_descripcion = Ausente, c_precio = Ausente,
     c_stock = Ausente, c_categoria = Ausente\<rparr>"

subsection \<open>Field constraints\<close>

text \<open>
  \<^verbatim>\<open>min_length=1, max_length=100\<close>, \<^verbatim>\<open>min_length=1, max_length=350\<close>,
  \<^verbatim>\<open>gt=0.0\<close> and \<^verbatim>\<open>ge=0\<close>.
\<close>

definition nombre_ok :: "string \<Rightarrow> bool" where
  "nombre_ok s \<longleftrightarrow> 1 \<le> length s \<and> length s \<le> 100"

definition descripcion_ok :: "string \<Rightarrow> bool" where
  "descripcion_ok s \<longleftrightarrow> 1 \<le> length s \<and> length s \<le> 350"

definition precio_ok :: "real \<Rightarrow> bool" where
  "precio_ok p \<longleftrightarrow> 0 < p"

definition stock_ok :: "int \<Rightarrow> bool" where
  "stock_ok n \<longleftrightarrow> 0 \<le> n"

text \<open>
  A field declared \<^verbatim>\<open>Field(...)\<close> with a non-optional type must be present, not
  null, and satisfy its constraint. A field declared \<^verbatim>\<open>Optional[..] = Field(None, ..)\<close>
  may be missing or null; its constraint applies to a given value only.
\<close>

fun requerido :: "('a \<Rightarrow> bool) \<Rightarrow> 'a campo \<Rightarrow> 'a option" where
  "requerido ok (Valor v) = (if ok v then Some v else None)"
| "requerido ok Nulo = None"
| "requerido ok Ausente = None"

fun opcional :: "('a \<Rightarrow> bool) \<Rightarrow> 'a campo \<Rightarrow> bool" where
  "opcional ok (Valor v) = ok v"
| "opcional ok Nulo = True"
| "opcional ok Ausente = True"

fun valor_o_none :: "'a campo \<Rightarrow> 'a option" where
  "valor_o_none (Valor v) = Some v"
| "valor_o_none Nulo = None"
| "valor_o_none Ausente = None"

text \<open>
  Validation of a body against \<^verbatim>\<open>ProductoCreate\<close> (which is \<^verbatim>\<open>ProductoBase\<close>):
  \<open>None\<close> is the validation error that the framework answers with 422.
\<close>

definition ProductoCreate :: "cuerpo \<Rightarrow> producto_base option" where
  "ProductoCreate c =
     (case requerido nombre_ok (c_nombre c) of None \<Rightarrow> None | Some n \<Rightarrow>
      case requerido descripcion_ok (c_descripcion c) of None \<Rightarrow> None | Some d \<Rightarrow>
      case requerido precio_ok (c_precio c) of None \<Rightarrow> None | Some p \<Rightarrow>
      case requerido stock_ok (c_stock c) of None \<Rightarrow> None | Some s \<Rightarrow>
        Some \<lparr>nombre = n, descripcion = d, precio = p, stock = s,
              categoria = valor_o_none (c_categoria c)\<rparr>)"

text \<open>
  Validation against \<^verbatim>\<open>ProductoUpdate\<close>. The validated model keeps, for every
  field, whether it was set and to what, so it is the body itself.
\<close>

definition ProductoUpdate :: "cuerpo \<Rightarrow> cuerpo option" where
  "ProductoUpdate c =
     (if opcional nombre_ok (c_nombre c) \<and> opcional descripcion_ok (c_descripcion c)
         \<and> opcional precio_ok (c_precio c) \<and> opcional stock_ok (c_stock c)
      then Some c else None)"

text \<open>
  Validation of a returned row against \<^verbatim>\<open>ProductoResponse\<close>, which inherits the
  constraints of \<^verbatim>\<open>ProductoBase\<close>.
\<close>

definition ProductoResponse :: "producto \<Rightarrow> bool" where
  "ProductoResponse f \<longleftrightarrow>
     nombre_ok (nombre f) \<and> descripcion_ok (descripcion f) \<and> precio_ok (precio f)
     \<and> stock_ok (stock f)"

subsection \<open>Dictionaries and mapped objects\<close>

text \<open>
  \<^verbatim>\<open>model_dump\<close> returns a dictionary from attribute names to Python values, in
  the order the fields are declared. A mapped object holds one Python value per
  attribute, which \<^verbatim>\<open>setattr\<close> overwrites, and its primary key (\<open>None\<close> until the
  object has been inserted).
\<close>

datatype clave = Nombre | Descripcion | Precio | Stock | Categoria

datatype valor = VStr string | VFloat real | VInt int | VNone

definition model_dump :: "producto_base \<Rightarrow> (clave \<times> valor) list" where
  "model_dump p =
     [(Nombre, VStr (nombre p)), (Descripcion, VStr (descripcion p)),
      (Precio, VFloat (precio p)), (Stock, VInt (stock p)),
      (Categoria, (case categoria p of None \<Rightarrow> VNone | Some k \<Rightarrow> VStr k))]"

fun volcar :: "clave \<Rightarrow> ('a \<Rightarrow> valor) \<Rightarrow> 'a campo \<Rightarrow> (clave \<times> valor) list" where
  "volcar k iny Ausente = []"
| "volcar k iny Nulo = [(k, VNone)]"
| "volcar k iny (Valor v) = [(k, iny v)]"

definition model_dump_exclude_unset :: "cuerpo \<Rightarrow> (clave \<times> valor) list" where
  "model_dump_exclude_unset u =
     volcar Nombre VStr (c_nombre u) @ volcar Descripcion VStr (c_descripcion u)
     @ volcar Precio VFloat (c_precio u) @ volcar Stock VInt (c_stock u)
     @ volcar Categoria VStr (c_categoria u)"

record entidad =
  e_id :: "int option"
  atributos :: "clave \<Rightarrow> valor"

definition setattr :: "entidad \<Rightarrow> clave \<Rightarrow> valor \<Rightarrow> entidad" where
  "setattr e k v = e\<lparr>atributos := (atributos e)(k := v)\<rparr>"

definition setattr_todos :: "(clave \<times> valor) list \<Rightarrow> entidad \<Rightarrow> entidad" where
  "setattr_todos d e = fold (\<lambda>(key, value) e'. setattr e' key value) d e"

text \<open>\<^verbatim>\<open>Producto(**d)\<close>: a new object, every keyword set as an attribute.\<close>

definition Producto :: "(clave \<times> valor) list \<Rightarrow> entidad" where
  "Producto d = setattr_todos d \<lparr>e_id = None, atributos = (\<lambda>k. VNone)\<rparr>"

text \<open>The object that \<^verbatim>\<open>db.get\<close> builds from a stored row.\<close>

definition cargar :: "producto \<Rightarrow> entidad" where
  "cargar f =
     \<lparr>e_id = Some (producto_id f),
      atributos = (\<lambda>k. case k of
          Nombre \<Rightarrow> VStr (nombre f)
        | Descripcion \<Rightarrow> VStr (descripcion f)
        | Precio \<Rightarrow> VFloat (precio f)
        | Stock \<Rightarrow> VInt (stock f)
        | Categoria \<Rightarrow> (case categoria f of None \<Rightarrow> VNone | Some k \<Rightarrow> VStr k))\<rparr>"

subsection \<open>The table \<^verbatim>\<open>productos\<close>\<close>

text \<open>
  The store is the table (its rows, in no particular order) and the sequence that feeds
  the \<^verbatim>\<open>autoincrement\<close> primary key. The configured backend is PostgreSQL
  (\<^verbatim>\<open>postgresql+psycopg2\<close>): a statement that violates a column declaration fails,
  the session's commit raises, and nothing is stored.

  Assigning to a \<^verbatim>\<open>String(n)\<close> column (character varying) keeps a string of at
  most \<open>n\<close> characters, cuts one whose excess characters are all spaces, and fails on
  any other. The driver refuses a string that contains the NUL character before the
  statement is sent. An integer column (\<^verbatim>\<open>Mapped[int]\<close>, INTEGER) holds 32-bit
  signed values and refuses any other, and the sequence of the integer key ends at the
  largest of them.
\<close>

datatype db_error = IntegrityError | DataError | ValueError

definition int4 :: "int \<Rightarrow> bool" where
  "int4 i \<longleftrightarrow> - 2147483648 \<le> i \<and> i \<le> 2147483647"

record bd =
  productos :: "producto list"
  productos_id_seq :: int

definition bd_vacia :: bd where
  "bd_vacia = \<lparr>productos = [], productos_id_seq = 1\<rparr>"

definition varchar :: "nat \<Rightarrow> string \<Rightarrow> string option" where
  "varchar n s =
     (if length s \<le> n then Some s
      else if list_all (\<lambda>c. c = CHR '' '') (drop n s) then Some (take n s)
      else None)"

fun col_string :: "nat \<Rightarrow> valor \<Rightarrow> db_error + string" where
  "col_string n (VStr s) =
     (if CHR 0x00 \<in> set s then Inl ValueError
      else case varchar n s of None \<Rightarrow> Inl DataError | Some t \<Rightarrow> Inr t)"
| "col_string n VNone = Inl IntegrityError"
| "col_string n v = Inl DataError"

fun col_string_null :: "nat \<Rightarrow> valor \<Rightarrow> db_error + string option" where
  "col_string_null n (VStr s) =
     (if CHR 0x00 \<in> set s then Inl ValueError
      else case varchar n s of None \<Rightarrow> Inl DataError | Some t \<Rightarrow> Inr (Some t))"
| "col_string_null n VNone = Inr None"
| "col_string_null n v = Inl DataError"

fun col_float :: "valor \<Rightarrow> db_error + real" where
  "col_float (VFloat x) = Inr x"
| "col_float (VInt i) = Inr (of_int i)"
| "col_float VNone = Inl IntegrityError"
| "col_float v = Inl DataError"

fun col_int :: "valor \<Rightarrow> db_error + int" where
  "col_int (VInt i) = (if int4 i then Inr i else Inl DataError)"
| "col_int VNone = Inl IntegrityError"
| "col_int v = Inl DataError"

text \<open>The row that a mapped object is stored as under the key \<open>i\<close>.\<close>

definition fila_de :: "int \<Rightarrow> entidad \<Rightarrow> db_error + producto" where
  "fila_de i e =
     (case col_string 100 (atributos e Nombre) of Inl x \<Rightarrow> Inl x | Inr n \<Rightarrow>
      case col_string 350 (atributos e Descripcion) of Inl x \<Rightarrow> Inl x | Inr d \<Rightarrow>
      case col_float (atributos e Precio) of Inl x \<Rightarrow> Inl x | Inr p \<Rightarrow>
      case col_int (atributos e Stock) of Inl x \<Rightarrow> Inl x | Inr s \<Rightarrow>
      case col_string_null 50 (atributos e Categoria) of Inl x \<Rightarrow> Inl x | Inr k \<Rightarrow>
        Inr \<lparr>nombre = n, descripcion = d, precio = p, stock = s, categoria = k,
             producto_id = i\<rparr>)"

definition claves :: "bd \<Rightarrow> int list" where
  "claves db = map producto_id (productos db)"

text \<open>\<^verbatim>\<open>db.get(Producto, producto_id)\<close>: the row with that key, if any.\<close>

definition db_get :: "int \<Rightarrow> bd \<Rightarrow> producto option" where
  "db_get pid db = find (\<lambda>f. producto_id f = pid) (productos db)"

text \<open>
  \<^verbatim>\<open>db.add\<close>, \<^verbatim>\<open>db.commit\<close> and \<^verbatim>\<open>db.refresh\<close> of a new object: the key
  comes from the sequence, never from the object; the stored row is returned.
\<close>

definition commit_insert :: "entidad \<Rightarrow> bd \<Rightarrow> db_error + (producto \<times> bd)" where
  "commit_insert e db =
     (case fila_de (productos_id_seq db) e of Inl x \<Rightarrow> Inl x | Inr f \<Rightarrow>
        if \<not> int4 (productos_id_seq db) then Inl DataError
        else if producto_id f \<in> set (claves db) then Inl IntegrityError
        else Inr (f, db\<lparr>productos := productos db @ [f],
                         productos_id_seq := productos_id_seq db + 1\<rparr>))"

text \<open>
  \<^verbatim>\<open>db.add\<close>, \<^verbatim>\<open>db.commit\<close> and \<^verbatim>\<open>db.refresh\<close> of an object loaded under
  the key \<open>pid\<close>: the row of that key is replaced by the object's state.
\<close>

definition commit_update :: "int \<Rightarrow> entidad \<Rightarrow> bd \<Rightarrow> db_error + (producto \<times> bd)" where
  "commit_update pid e db =
     (case e_id e of None \<Rightarrow> Inl IntegrityError | Some i \<Rightarrow>
      case fila_de i e of Inl x \<Rightarrow> Inl x | Inr f \<Rightarrow>
        if i \<noteq> pid \<and> i \<in> set (claves db) then Inl IntegrityError
        else Inr (f, db\<lparr>productos :=
                          map (\<lambda>g. if producto_id g = pid then f else g) (productos db)\<rparr>))"

text \<open>\<^verbatim>\<open>db.delete\<close> and \<^verbatim>\<open>db.commit\<close>: the row of that key is removed.\<close>

definition commit_delete :: "int \<Rightarrow> bd \<Rightarrow> bd" where
  "commit_delete pid db = db\<lparr>productos := filter (\<lambda>g. producto_id g \<noteq> pid) (productos db)\<rparr>"

section \<open>Endpoints\<close>

datatype contenido =
    Entidad producto
  | Lista "producto list"
  | Detalle string
  | ErroresValidacion
  | ErrorInterno
  | SinContenido

type_synonym respuesta = "nat \<times> contenido"

definition http_404 :: respuesta where
  "http_404 = (404, Detalle ''Producto no encontrado'')"

definition http_422 :: respuesta where
  "http_422 = (422, ErroresValidacion)"

definition http_500 :: respuesta where
  "http_500 = (500, ErrorInterno)"

text \<open>\<^verbatim>\<open>response_model=ProductoResponse\<close>: a returned row that fails the model is
  an unhandled error.\<close>

definition responder :: "nat \<Rightarrow> producto \<Rightarrow> respuesta" where
  "responder st f = (if ProductoResponse f then (st, Entidad f) else http_500)"

definition crear_producto :: "producto_base \<Rightarrow> bd \<Rightarrow> respuesta \<times> bd" where
  "crear_producto producto db =
     (let db_producto = Producto (model_dump producto)
      in case commit_insert db_producto db of
           Inl x \<Rightarrow> (http_500, db)
         | Inr (f, db') \<Rightarrow> (responder 201 f, db'))"

definition obtener_productos :: "bd \<Rightarrow> respuesta \<times> bd" where
  "obtener_productos db =
     (let productos_db = sort_key producto_id (productos db)
      in (if list_all ProductoResponse productos_db then (200, Lista productos_db)
          else http_500, db))"

definition obtener_producto :: "int \<Rightarrow> bd \<Rightarrow> respuesta \<times> bd" where
  "obtener_producto pid db =
     (case db_get pid db of
        None \<Rightarrow> (http_404, db)
      | Some producto_db \<Rightarrow> (responder 200 producto_db, db))"

text \<open>
  The middle of \<^verbatim>\<open>actualizar_producto\<close>: the dictionary of the fields that were
  set, and the loop that assigns each of them to the loaded object.
\<close>

definition asignar :: "cuerpo \<Rightarrow> entidad \<Rightarrow> entidad" where
  "asignar producto_update db_producto =
     (let update_data = model_dump_exclude_unset producto_update
      in setattr_todos update_data db_producto)"

definition actualizar_producto :: "int \<Rightarrow> cuerpo \<Rightarrow> bd \<Rightarrow> respuesta \<times> bd" where
  "actualizar_producto pid producto_update db =
     (case db_get pid db of
        None \<Rightarrow> (http_404, db)
      | Some f0 \<Rightarrow>
          (let db_producto = asignar producto_update (cargar f0)
           in case commit_update pid db_producto db of
                Inl x \<Rightarrow> (http_500, db)
              | Inr (f, db') \<Rightarrow> (responder 200 f, db')))"

definition eliminar_producto :: "int \<Rightarrow> bd \<Rightarrow> respuesta \<times> bd" where
  "eliminar_producto pid db =
     (case db_get pid db of
        None \<Rightarrow> (http_404, db)
      | Some db_producto \<Rightarrow> ((204, SinContenido), commit_delete pid db))"

text \<open>
  The framework validates the body against the handler's model before it calls the
  handler, and answers 422 without calling it when validation fails.
\<close>

definition post_productos :: "cuerpo \<Rightarrow> bd \<Rightarrow> respuesta \<times> bd" where
  "post_productos c db =
     (case ProductoCreate c of
        None \<Rightarrow> (http_422, db)
      | Some producto \<Rightarrow> crear_producto producto db)"

definition put_producto :: "int \<Rightarrow> cuerpo \<Rightarrow> bd \<Rightarrow> respuesta \<times> bd" where
  "put_producto pid c db =
     (case ProductoUpdate c of
        None \<Rightarrow> (http_422, db)
      | Some producto_update \<Rightarrow> actualizar_producto pid producto_update db)"

datatype peticion =
    POST cuerpo
  | GET_lista
  | GET int
  | PUT int cuerpo
  | DELETE int

fun atender :: "peticion \<Rightarrow> bd \<Rightarrow> respuesta \<times> bd" where
  "atender (POST c) db = post_productos c db"
| "atender GET_lista db = obtener_productos db"
| "atender (GET pid) db = obtener_producto pid db"
| "atender (PUT pid c) db = put_producto pid c db"
| "atender (DELETE pid) db = eliminar_producto pid db"

text \<open>A sequence of requests served one after the other, with every response.\<close>

fun ejecutar :: "peticion list \<Rightarrow> bd \<Rightarrow> respuesta list \<times> bd" where
  "ejecutar [] db = ([], db)"
| "ejecutar (p # ps) db =
     (let (r, db1) = atender p db; (rs, db2) = ejecutar ps db1 in (r # rs, db2))"

subsection \<open>Well-formed tables\<close>

text \<open>
  A row fits the columns of \<^verbatim>\<open>Producto\<close> when its strings are within the declared
  widths \<^verbatim>\<open>String(100)\<close>, \<^verbatim>\<open>String(350)\<close> and \<^verbatim>\<open>String(50)\<close> and hold no
  NUL character, and its stock is a 32-bit integer; the database holds no other row. A
  table is in order when, besides, every row passes \<^verbatim>\<open>ProductoResponse\<close> and the
  primary key is unique.
\<close>

definition texto_ok :: "nat \<Rightarrow> string \<Rightarrow> bool" where
  "texto_ok n s \<longleftrightarrow> length s \<le> n \<and> CHR 0x00 \<notin> set s"

definition columnas_ok :: "producto \<Rightarrow> bool" where
  "columnas_ok f \<longleftrightarrow>
     texto_ok 100 (nombre f) \<and> texto_ok 350 (descripcion f) \<and> int4 (stock f)
     \<and> (case categoria f of None \<Rightarrow> True | Some k \<Rightarrow> texto_ok 50 k)"

text \<open>
  A body fits the columns when it gives no null for a column declared
  \<^verbatim>\<open>nullable=False\<close> and every string and integer it gives is one that its column
  stores as it is.
\<close>

definition almacenable :: "cuerpo \<Rightarrow> bool" where
  "almacenable u \<longleftrightarrow>
     c_nombre u \<noteq> Nulo \<and> c_descripcion u \<noteq> Nulo \<and> c_precio u \<noteq> Nulo \<and> c_stock u \<noteq> Nulo
     \<and> opcional (texto_ok 100) (c_nombre u) \<and> opcional (texto_ok 350) (c_descripcion u)
     \<and> opcional int4 (c_stock u) \<and> opcional (texto_ok 50) (c_categoria u)"

definition tabla_ok :: "bd \<Rightarrow> bool" where
  "tabla_ok db \<longleftrightarrow> list_all ProductoResponse (productos db) \<and> distinct (claves db)"

subsection \<open>Example data\<close>


definition cuerpo_monitor :: cuerpo where
  "cuerpo_monitor = \<lparr>c_nombre = Valor ''Monitor'', c_descripcion = Valor ''4K display'',
     c_precio = Valor 399.99, c_stock = Valor 75, c_categoria = Valor ''Electronics''\<rparr>"

definition fila_monitor :: producto where
  "fila_monitor = \<lparr>nombre = ''Monitor'', descripcion = ''4K display'', precio = 399.99,
     stock = 75, categoria = Some ''Electronics'', producto_id = 1\<rparr>"

definition bd_monitor :: bd where
  "bd_monitor = \<lparr>productos = [fila_monitor], productos_id_seq = 2\<rparr>"

section \<open>Evaluation and basic facts\<close>

lemmas evaluar =
  post_productos_def put_producto_def ProductoCreate_def ProductoUpdate_def
  ProductoResponse_def nombre_ok_def descripcion_ok_def precio_ok_def stock_ok_def
  crear_producto_def obtener_producto_def obtener_productos_def actualizar_producto_def
  eliminar_producto_def responder_def commit_insert_def commit_update_def commit_delete_def
  fila_de_def varchar_def model_dump_def model_dump_exclude_unset_def Producto_def
  setattr_todos_def setattr_def cargar_def db_get_def claves_def asignar_def int4_def
  texto_ok_def columnas_ok_def http_404_def http_422_def http_500_def bd_vacia_def sin_campos_def
  cuerpo_monitor_def fila_monitor_def bd_monitor_def Let_def

lemma crear_monitor:
  "post_productos cuerpo_monitor bd_vacia = ((201, Entidad fila_monitor), bd_monitor)"
  by (simp add: evaluar)

lemma requerido_Some: "requerido ok c = Some v \<longleftrightarrow> c = Valor v \<and> ok v"
  by (cases c) auto

lemma ProductoCreate_Some:
  "ProductoCreate c = Some p \<Longrightarrow>
     c_nombre c = Valor (nombre p) \<and> nombre_ok (nombre p)
     \<and> c_descripcion c = Valor (descripcion p) \<and> descripcion_ok (descripcion p)
     \<and> c_precio c = Valor (precio p) \<and> precio_ok (precio p)
     \<and> c_stock c = Valor (stock p) \<and> stock_ok (stock p)
     \<and> categoria p = valor_o_none (c_categoria c)"
  unfolding ProductoCreate_def
  by (auto split: option.splits simp: requerido_Some)

lemma clave_libre:
  "i \<notin> set (claves db) \<Longrightarrow> g \<in> set (productos db) \<Longrightarrow> producto_id g \<noteq> i"
  by (auto simp: claves_def image_iff)

lemma find_append_new:
  "\<forall>g \<in> set xs. \<not> P g \<Longrightarrow> P f \<Longrightarrow> find P (xs @ [f]) = Some f"
  by (induction xs) auto

lemma responder_ok:
  "responder st f = (st', Entidad g) \<Longrightarrow> ProductoResponse f \<and> g = f \<and> st' = st"
  by (auto simp: responder_def http_500_def split: if_splits)

lemma crear_201:
  assumes "crear_producto p db = ((201, Entidad f), db')"
  shows "commit_insert (Producto (model_dump p)) db = Inr (f, db') \<and> ProductoResponse f"
  using assms unfolding crear_producto_def Let_def
  by (auto split: sum.splits prod.splits simp: http_500_def dest: responder_ok)

lemma commit_insert_Inr:
  assumes "commit_insert e db = Inr (f, db')"
  shows "fila_de (productos_id_seq db) e = Inr f \<and> producto_id f \<notin> set (claves db)
       \<and> db' = db\<lparr>productos := productos db @ [f],
                   productos_id_seq := productos_id_seq db + 1\<rparr>"
  using assms unfolding commit_insert_def
  by (auto split: sum.splits if_splits)

lemma post_201:
  assumes "post_productos c db = ((201, Entidad f), db')"
  shows "\<exists>p. ProductoCreate c = Some p \<and> crear_producto p db = ((201, Entidad f), db')"
  using assms unfolding post_productos_def
  by (auto split: option.splits simp: http_422_def)

lemma find_filter_clave:
  "find (\<lambda>f. k f = q) (filter (\<lambda>g. k g \<noteq> pid) xs)
     = (if q = pid then None else find (\<lambda>f. k f = q) xs)"
  by (induction xs) auto

lemma db_get_commit_delete:
  "db_get q (commit_delete pid db) = (if q = pid then None else db_get q db)"
  unfolding db_get_def commit_delete_def by (simp add: find_filter_clave)

lemma db_get_mem:
  "db_get pid db = Some f \<Longrightarrow> f \<in> set (productos db) \<and> producto_id f = pid"
  unfolding db_get_def by (auto simp: find_Some_iff)

lemma e_id_setattr_todos: "e_id (setattr_todos d e) = e_id e"
  unfolding setattr_todos_def
  by (induction d arbitrary: e) (auto simp: setattr_def)

lemma e_id_asignar: "e_id (asignar u e) = e_id e"
  by (simp add: asignar_def e_id_setattr_todos)

lemma e_id_cargar: "e_id (cargar f) = Some (producto_id f)"
  by (simp add: cargar_def)

lemma fila_de_id: "fila_de i e = Inr f \<Longrightarrow> producto_id f = i"
  unfolding fila_de_def by (auto split: sum.splits)

lemma commit_update_Inr:
  assumes "commit_update pid e db = Inr (f, db')" "e_id e = Some pid"
  shows "fila_de pid e = Inr f \<and> producto_id f = pid
       \<and> db' = db\<lparr>productos := map (\<lambda>g. if producto_id g = pid then f else g) (productos db)\<rparr>"
  using assms unfolding commit_update_def
  by (auto split: sum.splits if_splits dest: fila_de_id)

lemma commit_update_Inl:
  assumes "commit_update pid e db = Inl x" "e_id e = Some pid"
  shows "fila_de pid e = Inl x"
  using assms unfolding commit_update_def
  by (auto split: sum.splits if_splits)

lemma actualizar_casos:
  assumes "db_get pid db = Some f0"
  shows "((\<exists>x. fila_de pid (asignar u (cargar f0)) = Inl x)
          \<and> actualizar_producto pid u db = (http_500, db))
       \<or> (\<exists>f. fila_de pid (asignar u (cargar f0)) = Inr f
              \<and> producto_id f = pid
              \<and> actualizar_producto pid u db =
                  (responder 200 f,
                   db\<lparr>productos := map (\<lambda>g. if producto_id g = pid then f else g) (productos db)\<rparr>))"
proof -
  let ?e = "asignar u (cargar f0)"
  have id: "e_id ?e = Some pid"
    using db_get_mem[OF assms] by (simp add: e_id_asignar e_id_cargar)
  show ?thesis
  proof (cases "commit_update pid ?e db")
    case (Inl x)
    from commit_update_Inl[OF Inl id] Inl assms show ?thesis
      by (auto simp: actualizar_producto_def)
  next
    case (Inr r)
    obtain f db' where r: "r = (f, db')" by (cases r)
    from commit_update_Inr[OF Inr[unfolded r] id] Inr r assms show ?thesis
      by (simp add: actualizar_producto_def)
  qed
qed

lemma map_reemplazo_claves:
  "k f = pid \<Longrightarrow> map k (map (\<lambda>g. if k g = pid then f else g) xs) = map k xs"
  by (induction xs) auto

lemma filter_quita:
  "f \<in> set xs \<Longrightarrow> \<not> P f \<Longrightarrow> length (filter P xs) < length xs"
  by (induction xs) (auto simp: less_Suc_eq_le)

lemma setattr_todos_append:
  "setattr_todos (a @ b) e = setattr_todos b (setattr_todos a e)"
  by (simp add: setattr_todos_def)

lemma atributos_volcar:
  "atributos (setattr_todos (volcar k iny c) e) k' =
     (if k' = k then (case c of Ausente \<Rightarrow> atributos e k | Nulo \<Rightarrow> VNone | Valor v \<Rightarrow> iny v)
      else atributos e k')"
  by (cases c) (simp_all add: setattr_todos_def setattr_def)

lemma atributos_actualizados:
  fixes u f0
  defines "e \<equiv> asignar u (cargar f0)"
  shows "atributos e Nombre =
           (case c_nombre u of Ausente \<Rightarrow> VStr (nombre f0) | Nulo \<Rightarrow> VNone | Valor v \<Rightarrow> VStr v)"
    and "atributos e Descripcion =
           (case c_descripcion u of Ausente \<Rightarrow> VStr (descripcion f0) | Nulo \<Rightarrow> VNone
            | Valor v \<Rightarrow> VStr v)"
    and "atributos e Precio =
           (case c_precio u of Ausente \<Rightarrow> VFloat (precio f0) | Nulo \<Rightarrow> VNone
            | Valor v \<Rightarrow> VFloat v)"
    and "atributos e Stock =
           (case c_stock u of Ausente \<Rightarrow> VInt (stock f0) | Nulo \<Rightarrow> VNone | Valor v \<Rightarrow> VInt v)"
    and "atributos e Categoria =
           (case c_categoria u of
              Ausente \<Rightarrow> (case categoria f0 of None \<Rightarrow> VNone | Some k \<Rightarrow> VStr k)
            | Nulo \<Rightarrow> VNone | Valor v \<Rightarrow> VStr v)"
  unfolding e_def asignar_def model_dump_exclude_unset_def Let_def
  by (simp_all add: setattr_todos_append atributos_volcar cargar_def split: campo.splits)

lemma atributos_nuevos:
  fixes p
  defines "e \<equiv> Producto (model_dump p)"
  shows "atributos e Nombre = VStr (nombre p)"
    and "atributos e Descripcion = VStr (descripcion p)"
    and "atributos e Precio = VFloat (precio p)"
    and "atributos e Stock = VInt (stock p)"
    and "atributos e Categoria = (case categoria p of None \<Rightarrow> VNone | Some k \<Rightarrow> VStr k)"
  unfolding e_def
  by (simp_all add: Producto_def model_dump_def setattr_todos_def setattr_def)

lemma fila_de_Inr:
  assumes "fila_de i e = Inr f"
  shows "col_string 100 (atributos e Nombre) = Inr (nombre f)"
    and "col_string 350 (atributos e Descripcion) = Inr (descripcion f)"
    and "col_float (atributos e Precio) = Inr (precio f)"
    and "col_int (atributos e Stock) = Inr (stock f)"
    and "col_string_null 50 (atributos e Categoria) = Inr (categoria f)"
    and "producto_id f = i"
  using assms unfolding fila_de_def by (auto split: sum.splits)

lemma varchar_Some:
  "varchar n s = Some t \<Longrightarrow> (length s \<le> n \<and> t = s) \<or> (n < length s \<and> t = take n s)"
  by (auto simp: varchar_def split: if_splits)

lemma varchar_corto: "length s \<le> n \<Longrightarrow> varchar n s = Some s"
  by (simp add: varchar_def)

lemma varchar_no_vacio: "varchar n s = Some t \<Longrightarrow> 0 < n \<Longrightarrow> s \<noteq> [] \<Longrightarrow> t \<noteq> []"
  by (auto dest!: varchar_Some)

lemma col_string_ok: "texto_ok n s \<Longrightarrow> col_string n (VStr s) = Inr s"
  by (simp add: texto_ok_def varchar_corto)

lemma col_string_null_ok: "texto_ok n s \<Longrightarrow> col_string_null n (VStr s) = Inr (Some s)"
  by (simp add: texto_ok_def varchar_corto)

lemma col_int_ok: "int4 i \<Longrightarrow> col_int (VInt i) = Inr i"
  by simp

lemma col_string_caso:
  assumes "col_string n (case c of Ausente \<Rightarrow> VStr old | Nulo \<Rightarrow> VNone | Valor v \<Rightarrow> VStr v)
             = Inr t"
  shows "(c = Ausente \<and> varchar n old = Some t) \<or> (\<exists>v. c = Valor v \<and> varchar n v = Some t)"
  using assms by (cases c) (auto split: if_splits option.splits)

lemma col_float_caso:
  assumes "col_float (case c of Ausente \<Rightarrow> VFloat old | Nulo \<Rightarrow> VNone | Valor v \<Rightarrow> VFloat v)
             = Inr t"
  shows "(c = Ausente \<and> t = old) \<or> c = Valor t"
  using assms by (cases c) auto

lemma col_int_caso:
  assumes "col_int (case c of Ausente \<Rightarrow> VInt old | Nulo \<Rightarrow> VNone | Valor v \<Rightarrow> VInt v)
             = Inr t"
  shows "(c = Ausente \<and> t = old) \<or> c = Valor t"
  using assms by (cases c) (auto split: if_splits)

lemma col_string_null_caso:
  assumes "col_string_null n
             (case c of Ausente \<Rightarrow> (case old of None \<Rightarrow> VNone | Some k \<Rightarrow> VStr k)
              | Nulo \<Rightarrow> VNone | Valor v \<Rightarrow> VStr v) = Inr t"
  shows "(c = Nulo \<longrightarrow> t = None) \<and> (\<forall>k. c = Valor k \<longrightarrow> t = Some (take n k))"
proof (cases c)
  case (Valor k)
  with assms obtain k' where "varchar n k = Some k'" "t = Some k'"
    by (auto split: if_splits option.splits)
  with varchar_Some[of n k k'] Valor show ?thesis by auto
qed (use assms in auto)

lemma ProductoUpdate_Some:
  "ProductoUpdate c = Some u \<Longrightarrow>
     u = c \<and> opcional nombre_ok (c_nombre c) \<and> opcional descripcion_ok (c_descripcion c)
     \<and> opcional precio_ok (c_precio c) \<and> opcional stock_ok (c_stock c)"
  by (auto simp: ProductoUpdate_def split: if_splits)

lemma fila_actualizada_valida:
  assumes v: "ProductoUpdate u = Some u"
    and f: "fila_de i (asignar u (cargar f0)) = Inr f"
    and old: "0 < precio f0 \<and> 0 \<le> stock f0 \<and> nombre f0 \<noteq> [] \<and> descripcion f0 \<noteq> []"
  shows "0 < precio f \<and> 0 \<le> stock f \<and> nombre f \<noteq> [] \<and> descripcion f \<noteq> []"
proof -
  note ok = ProductoUpdate_Some[OF v]
  note cols = fila_de_Inr[OF f, unfolded atributos_actualizados]
  from col_string_caso[OF cols(1)] ok old have n: "nombre f \<noteq> []"
    by (auto simp: nombre_ok_def dest!: varchar_no_vacio)
  from col_string_caso[OF cols(2)] ok old have d: "descripcion f \<noteq> []"
    by (auto simp: descripcion_ok_def dest!: varchar_no_vacio)
  from col_float_caso[OF cols(3)] ok old have p: "0 < precio f"
    by (auto simp: precio_ok_def)
  from col_int_caso[OF cols(4)] ok old have s: "0 \<le> stock f"
    by (auto simp: stock_ok_def)
  from n d p s show ?thesis by simp
qed

lemma fila_creada:
  assumes v: "ProductoCreate c = Some p"
    and f: "fila_de i (Producto (model_dump p)) = Inr f"
  shows "nombre f = nombre p \<and> descripcion f = descripcion p \<and> precio f = precio p
       \<and> stock f = stock p \<and> ProductoResponse f"
proof -
  note ok = ProductoCreate_Some[OF v]
  note cols = fila_de_Inr[OF f, unfolded atributos_nuevos]
  from cols(1) ok have n: "nombre f = nombre p"
    by (auto simp: nombre_ok_def varchar_corto split: if_splits)
  from cols(2) ok have d: "descripcion f = descripcion p"
    by (auto simp: descripcion_ok_def varchar_corto split: if_splits)
  from cols(3,4) have "precio f = precio p" "stock f = stock p"
    by (simp_all split: if_splits)
  with n d ok show ?thesis by (simp add: ProductoResponse_def)
qed

lemma fila_actualizada_respuesta:
  assumes v: "ProductoUpdate u = Some u"
    and f: "fila_de i (asignar u (cargar f0)) = Inr f"
    and old: "ProductoResponse f0"
  shows "ProductoResponse f"
proof -
  note ok = ProductoUpdate_Some[OF v]
  note cols = fila_de_Inr[OF f, unfolded atributos_actualizados]
  from col_string_caso[OF cols(1)] ok old have n: "nombre_ok (nombre f)"
    by (auto simp: ProductoResponse_def nombre_ok_def varchar_corto)
  from col_string_caso[OF cols(2)] ok old have d: "descripcion_ok (descripcion f)"
    by (auto simp: ProductoResponse_def descripcion_ok_def varchar_corto)
  from col_float_caso[OF cols(3)] ok old have p: "precio_ok (precio f)"
    by (auto simp: ProductoResponse_def)
  from col_int_caso[OF cols(4)] ok old have s: "stock_ok (stock f)"
    by (auto simp: ProductoResponse_def)
  from n d p s show ?thesis by (simp add: ProductoResponse_def)
qed

lemma put_casos:
  assumes "db_get pid db = Some f0"
  shows "(ProductoUpdate u = None \<and> put_producto pid u db = (http_422, db))
       \<or> (ProductoUpdate u = Some u \<and> (\<exists>x. fila_de pid (asignar u (cargar f0)) = Inl x)
            \<and> put_producto pid u db = (http_500, db))
       \<or> (\<exists>f. ProductoUpdate u = Some u
              \<and> fila_de pid (asignar u (cargar f0)) = Inr f
              \<and> put_producto pid u db =
                  (responder 200 f,
                   db\<lparr>productos := map (\<lambda>g. if producto_id g = pid then f else g) (productos db)\<rparr>))"
proof (cases "ProductoUpdate u")
  case None
  then show ?thesis by (simp add: put_producto_def)
next
  case (Some u')
  with ProductoUpdate_Some[OF Some] have v: "ProductoUpdate u = Some u" by simp
  from actualizar_casos[OF assms, of u] v show ?thesis
    by (auto simp: put_producto_def)
qed

lemma find_map_reemplazo:
  "find (\<lambda>g. k g = pid) xs = Some f0 \<Longrightarrow> k f = pid \<Longrightarrow>
     find (\<lambda>g. k g = pid) (map (\<lambda>g. if k g = pid then f else g) xs) = Some f"
  by (induction xs) (auto split: if_splits)

lemma find_map_otro:
  "q \<noteq> pid \<Longrightarrow> k f = pid \<Longrightarrow>
     find (\<lambda>g. k g = q) (map (\<lambda>g. if k g = pid then f else g) xs) = find (\<lambda>g. k g = q) xs"
  by (induction xs) auto

lemma db_get_reemplazo:
  assumes "db_get pid db = Some f0" "producto_id f = pid"
  shows "db_get q (db\<lparr>productos := map (\<lambda>g. if producto_id g = pid then f else g) (productos db)\<rparr>)
           = (if q = pid then Some f else db_get q db)"
  using assms unfolding db_get_def
  by (auto simp: find_map_reemplazo find_map_otro)

lemma col_string_null_ausente:
  assumes "col_string_null n (case old of None \<Rightarrow> VNone | Some k \<Rightarrow> VStr k) = Inr t"
    and "case old of None \<Rightarrow> True | Some k \<Rightarrow> texto_ok n k"
  shows "t = old"
  using assms by (cases old) (auto simp: texto_ok_def varchar_corto)

lemma fila_actualizada_marco:
  assumes f: "fila_de i (asignar u (cargar f0)) = Inr f"
    and c: "columnas_ok f0"
  shows "(c_nombre u = Ausente \<longrightarrow> nombre f = nombre f0)
       \<and> (c_descripcion u = Ausente \<longrightarrow> descripcion f = descripcion f0)
       \<and> (c_precio u = Ausente \<longrightarrow> precio f = precio f0)
       \<and> (c_stock u = Ausente \<longrightarrow> stock f = stock f0)
       \<and> (c_categoria u = Ausente \<longrightarrow> categoria f = categoria f0)"
proof -
  note cols = fila_de_Inr[OF f, unfolded atributos_actualizados]
  from col_string_caso[OF cols(1)] c have 1: "c_nombre u = Ausente \<longrightarrow> nombre f = nombre f0"
    by (auto simp: columnas_ok_def texto_ok_def varchar_corto)
  from col_string_caso[OF cols(2)] c
  have 2: "c_descripcion u = Ausente \<longrightarrow> descripcion f = descripcion f0"
    by (auto simp: columnas_ok_def texto_ok_def varchar_corto)
  from col_float_caso[OF cols(3)] have 3: "c_precio u = Ausente \<longrightarrow> precio f = precio f0"
    by auto
  from col_int_caso[OF cols(4)] have 4: "c_stock u = Ausente \<longrightarrow> stock f = stock f0"
    by auto
  have 5: "c_categoria u = Ausente \<longrightarrow> categoria f = categoria f0"
  proof
    assume a: "c_categoria u = Ausente"
    from cols(5) a c show "categoria f = categoria f0"
      by (auto simp: columnas_ok_def dest: col_string_null_ausente)
  qed
  from 1 2 3 4 5 show ?thesis by simp
qed

lemma fila_actualizada_aplicada:
  assumes v: "ProductoUpdate u = Some u"
    and f: "fila_de i (asignar u (cargar f0)) = Inr f"
  shows "(\<forall>v. c_nombre u = Valor v \<longrightarrow> nombre f = v)
       \<and> (\<forall>v. c_descripcion u = Valor v \<longrightarrow> descripcion f = v)
       \<and> (\<forall>v. c_precio u = Valor v \<longrightarrow> precio f = v)
       \<and> (\<forall>v. c_stock u = Valor v \<longrightarrow> stock f = v)
       \<and> (\<forall>k. c_categoria u = Valor k \<longrightarrow> categoria f = Some (take 50 k))
       \<and> (c_categoria u = Nulo \<longrightarrow> categoria f = None)"
proof -
  note ok = ProductoUpdate_Some[OF v]
  note cols = fila_de_Inr[OF f, unfolded atributos_actualizados]
  from col_string_caso[OF cols(1)] ok have 1: "\<forall>v. c_nombre u = Valor v \<longrightarrow> nombre f = v"
    by (auto simp: nombre_ok_def varchar_corto)
  from col_string_caso[OF cols(2)] ok
  have 2: "\<forall>v. c_descripcion u = Valor v \<longrightarrow> descripcion f = v"
    by (auto simp: descripcion_ok_def varchar_corto)
  from col_float_caso[OF cols(3)] have 3: "\<forall>v. c_precio u = Valor v \<longrightarrow> precio f = v"
    by auto
  from col_int_caso[OF cols(4)] have 4: "\<forall>v. c_stock u = Valor v \<longrightarrow> stock f = v"
    by auto
  note 5 = col_string_null_caso[OF cols(5)]
  from 1 2 3 4 5 show ?thesis by simp
qed

lemma fila_actualizada_exito:
  assumes a: "almacenable u" and c: "columnas_ok f0"
  shows "\<exists>f. fila_de i (asignar u (cargar f0)) = Inr f"
proof -
  let ?e = "asignar u (cargar f0)"
  have n: "\<exists>t. col_string 100 (atributos ?e Nombre) = Inr t"
    unfolding atributos_actualizados using a c
    by (cases "c_nombre u") (simp_all add: almacenable_def columnas_ok_def texto_ok_def varchar_corto)
  have d: "\<exists>t. col_string 350 (atributos ?e Descripcion) = Inr t"
    unfolding atributos_actualizados using a c
    by (cases "c_descripcion u") (simp_all add: almacenable_def columnas_ok_def texto_ok_def varchar_corto)
  have p: "\<exists>t. col_float (atributos ?e Precio) = Inr t"
    unfolding atributos_actualizados using a
    by (cases "c_precio u") (simp_all add: almacenable_def)
  have s: "\<exists>t. col_int (atributos ?e Stock) = Inr t"
    unfolding atributos_actualizados using a c
    by (cases "c_stock u") (simp_all add: almacenable_def columnas_ok_def)
  have k: "\<exists>t. col_string_null 50 (atributos ?e Categoria) = Inr t"
    unfolding atributos_actualizados using a c
    by (cases "c_categoria u"; cases "categoria f0")
       (simp_all add: almacenable_def columnas_ok_def texto_ok_def varchar_corto)
  from n d p s k show ?thesis
    unfolding fila_de_def by (elim exE) simp
qed

lemma put_solo_stock:
  assumes g: "db_get pid db = Some f" and c: "columnas_ok f" and s: "0 \<le> s" and i: "int4 s"
  shows "put_producto pid (sin_campos\<lparr>c_stock := Valor s\<rparr>) db
           = (responder 200 (f\<lparr>stock := s\<rparr>),
              db\<lparr>productos := map (\<lambda>g. if producto_id g = pid then f\<lparr>stock := s\<rparr> else g)
                                 (productos db)\<rparr>)"
proof -
  let ?u = "sin_campos\<lparr>c_stock := Valor s\<rparr>"
  have v: "ProductoUpdate ?u = Some ?u"
    using s by (simp add: ProductoUpdate_def sin_campos_def stock_ok_def)
  have d: "asignar ?u (cargar f) = setattr_todos [(Stock, VInt s)] (cargar f)"
    by (simp add: asignar_def model_dump_exclude_unset_def sin_campos_def)
  have pid: "producto_id f = pid" using db_get_mem[OF g] by simp
  have "fila_de pid (setattr_todos [(Stock, VInt s)] (cargar f)) = Inr (f\<lparr>stock := s\<rparr>)"
    using c pid i
    by (cases f)
       (auto simp: fila_de_def setattr_todos_def setattr_def cargar_def columnas_ok_def
          texto_ok_def varchar_corto split: option.splits)
  then show ?thesis using v d g pid
    by (simp add: put_producto_def actualizar_producto_def commit_update_def
        e_id_setattr_todos e_id_cargar)
qed

lemma put_marco:
  assumes g: "db_get pid db = Some f" and c: "columnas_ok f"
  shows "\<exists>f'. db_get pid (snd (put_producto pid u db)) = Some f'
       \<and> producto_id f' = producto_id f
       \<and> (c_nombre u = Ausente \<longrightarrow> nombre f' = nombre f)
       \<and> (c_descripcion u = Ausente \<longrightarrow> descripcion f' = descripcion f)
       \<and> (c_precio u = Ausente \<longrightarrow> precio f' = precio f)
       \<and> (c_stock u = Ausente \<longrightarrow> stock f' = stock f)
       \<and> (c_categoria u = Ausente \<longrightarrow> categoria f' = categoria f)
       \<and> (fst (fst (put_producto pid u db)) = 200 \<longrightarrow>
            fst (put_producto pid u db) = (200, Entidad f')
            \<and> (\<forall>v. c_nombre u = Valor v \<longrightarrow> nombre f' = v)
            \<and> (\<forall>v. c_descripcion u = Valor v \<longrightarrow> descripcion f' = v)
            \<and> (\<forall>v. c_precio u = Valor v \<longrightarrow> precio f' = v)
            \<and> (\<forall>v. c_stock u = Valor v \<longrightarrow> stock f' = v)
            \<and> (\<forall>k. c_categoria u = Valor k \<longrightarrow> categoria f' = Some (take 50 k))
            \<and> (c_categoria u = Nulo \<longrightarrow> categoria f' = None))
       \<and> (ProductoResponse f \<and> ProductoUpdate u \<noteq> None \<and> almacenable u \<longrightarrow>
            fst (fst (put_producto pid u db)) = 200)
       \<and> (\<forall>q. q \<noteq> pid \<longrightarrow> db_get q (snd (put_producto pid u db)) = db_get q db)
       \<and> productos_id_seq (snd (put_producto pid u db)) = productos_id_seq db"
proof -
  have pid: "producto_id f = pid" using db_get_mem[OF g] by simp
  from put_casos[OF g, of u] show ?thesis
  proof (elim disjE exE conjE)
    assume v: "ProductoUpdate u = None" and r: "put_producto pid u db = (http_422, db)"
    have "fst (fst (put_producto pid u db)) \<noteq> 200" by (simp add: r http_422_def)
    moreover have "db_get pid (snd (put_producto pid u db)) = Some f" by (simp add: r g)
    moreover have "snd (put_producto pid u db) = db" by (simp add: r)
    ultimately show ?thesis using v by auto
  next
    fix x
    assume v: "ProductoUpdate u = Some u"
      and x: "fila_de pid (asignar u (cargar f)) = Inl x"
      and r: "put_producto pid u db = (http_500, db)"
    have "fst (fst (put_producto pid u db)) \<noteq> 200" by (simp add: r http_500_def)
    moreover have "db_get pid (snd (put_producto pid u db)) = Some f" by (simp add: r g)
    moreover have "snd (put_producto pid u db) = db" by (simp add: r)
    moreover have "\<not> almacenable u"
      using fila_actualizada_exito[OF _ c, of u pid] x by auto
    ultimately show ?thesis by auto
  next
    fix f'
    assume v: "ProductoUpdate u = Some u"
      and f': "fila_de pid (asignar u (cargar f)) = Inr f'"
      and r: "put_producto pid u db =
                (responder 200 f',
                 db\<lparr>productos := map (\<lambda>g. if producto_id g = pid then f' else g) (productos db)\<rparr>)"
    have pid': "producto_id f' = producto_id f" using fila_de_Inr(6)[OF f'] pid by simp
    have get: "db_get pid (snd (put_producto pid u db)) = Some f'"
      unfolding r using db_get_reemplazo[OF g, of f' pid] pid pid' by simp
    have otros: "\<forall>q. q \<noteq> pid \<longrightarrow> db_get q (snd (put_producto pid u db)) = db_get q db"
      unfolding r using db_get_reemplazo[OF g, of f'] pid pid' by simp
    have seq: "productos_id_seq (snd (put_producto pid u db)) = productos_id_seq db"
      unfolding r by simp
    have st: "fst (fst (put_producto pid u db)) = 200 \<longrightarrow>
              fst (put_producto pid u db) = (200, Entidad f')"
      unfolding r by (auto simp: responder_def http_500_def split: if_splits)
    have ok: "ProductoResponse f \<longrightarrow> fst (fst (put_producto pid u db)) = 200"
      unfolding r using fila_actualizada_respuesta[OF v f'] by (simp add: responder_def)
    from get pid' st ok otros seq fila_actualizada_marco[OF f' c]
      fila_actualizada_aplicada[OF v f']
    show ?thesis by blast
  qed
qed

lemma put_solo_stock_10:
  assumes g: "db_get pid db = Some f" and c: "columnas_ok f"
  shows "db_get pid (snd (put_producto pid (sin_campos\<lparr>c_stock := Valor 10\<rparr>) db))
           = Some (f\<lparr>stock := 10\<rparr>)
       \<and> (ProductoResponse f \<longrightarrow>
            fst (put_producto pid (sin_campos\<lparr>c_stock := Valor 10\<rparr>) db)
              = (200, Entidad (f\<lparr>stock := 10\<rparr>)))"
proof -
  have pid: "producto_id f = pid" using db_get_mem[OF g] by simp
  have r: "put_producto pid (sin_campos\<lparr>c_stock := Valor 10\<rparr>) db
           = (responder 200 (f\<lparr>stock := 10\<rparr>),
              db\<lparr>productos := map (\<lambda>g. if producto_id g = pid then f\<lparr>stock := 10\<rparr> else g)
                                 (productos db)\<rparr>)"
    by (rule put_solo_stock[OF g c]) (simp_all add: int4_def)
  have get: "db_get pid (snd (put_producto pid (sin_campos\<lparr>c_stock := Valor 10\<rparr>) db))
               = Some (f\<lparr>stock := 10\<rparr>)"
    unfolding r using db_get_reemplazo[OF g, of "f\<lparr>stock := 10\<rparr>" pid] pid by simp
  have resp: "ProductoResponse f \<Longrightarrow> ProductoResponse (f\<lparr>stock := 10\<rparr>)"
    by (simp add: ProductoResponse_def stock_ok_def)
  have ok: "ProductoResponse f \<longrightarrow>
              fst (put_producto pid (sin_campos\<lparr>c_stock := Valor 10\<rparr>) db)
                = (200, Entidad (f\<lparr>stock := 10\<rparr>))"
    unfolding r using resp by (simp add: responder_def)
  from get ok show ?thesis by blast
qed

lemma put_claves: "claves (snd (put_producto pid u db)) = claves db"
proof (cases "db_get pid db")
  case None
  then show ?thesis
    by (cases "ProductoUpdate u") (simp_all add: put_producto_def actualizar_producto_def)
next
  case (Some f0)
  from put_casos[OF Some, of u] show ?thesis
    by (auto simp: claves_def map_reemplazo_claves dest: fila_de_Inr(6))
qed

lemma post_casos:
  "(snd (post_productos c db) = db \<and> fst (fst (post_productos c db)) \<noteq> 201)
   \<or> (\<exists>f. ProductoResponse f \<and> producto_id f \<notin> set (claves db)
          \<and> post_productos c db =
              ((201, Entidad f),
               db\<lparr>productos := productos db @ [f], productos_id_seq := productos_id_seq db + 1\<rparr>))"
proof (cases "ProductoCreate c")
  case None
  then show ?thesis by (simp add: post_productos_def http_422_def)
next
  case (Some p)
  show ?thesis
  proof (cases "commit_insert (Producto (model_dump p)) db")
    case (Inl x)
    then show ?thesis using Some by (simp add: post_productos_def crear_producto_def http_500_def)
  next
    case (Inr r)
    obtain f db' where r: "r = (f, db')" by (cases r)
    note i = commit_insert_Inr[OF Inr[unfolded r]]
    from i fila_creada[OF Some] have "ProductoResponse f" by blast
    then show ?thesis using Some Inr r i
      by (simp add: post_productos_def crear_producto_def responder_def)
  qed
qed

lemma tabla_ok_post: "tabla_ok db \<Longrightarrow> tabla_ok (snd (post_productos c db))"
  using post_casos[of c db] by (auto simp: tabla_ok_def claves_def)

lemma tabla_ok_put:
  assumes "tabla_ok db"
  shows "tabla_ok (snd (put_producto pid u db))"
proof -
  have "list_all ProductoResponse (productos (snd (put_producto pid u db)))"
  proof (cases "db_get pid db")
    case None
    then show ?thesis using assms
      by (cases "ProductoUpdate u")
         (simp_all add: put_producto_def actualizar_producto_def tabla_ok_def)
  next
    case (Some f0)
    from db_get_mem[OF Some] assms have old: "ProductoResponse f0"
      by (auto simp: tabla_ok_def list_all_iff)
    from put_casos[OF Some, of u] assms show ?thesis
      by (auto simp: tabla_ok_def list_all_iff dest: fila_actualizada_respuesta[OF _ _ old])
  qed
  then show ?thesis using assms put_claves[of pid u db] by (simp add: tabla_ok_def)
qed

lemma tabla_ok_delete: "tabla_ok db \<Longrightarrow> tabla_ok (snd (eliminar_producto pid db))"
  by (cases "db_get pid db")
     (auto simp: eliminar_producto_def commit_delete_def tabla_ok_def claves_def
        list_all_iff distinct_map_filter)

lemma tabla_ok_atender: "tabla_ok db \<Longrightarrow> tabla_ok (snd (atender p db))"
proof (cases p)
  case (GET pid)
  assume "tabla_ok db"
  then show ?thesis using GET by (cases "db_get pid db") (simp_all add: obtener_producto_def)
qed (simp_all add: tabla_ok_post tabla_ok_put tabla_ok_delete obtener_productos_def Let_def)

lemma ejecutar_snd_Cons: "snd (ejecutar (p # ps) db) = snd (ejecutar ps (snd (atender p db)))"
  by (simp add: split_beta)

lemma ejecutar_fst_Cons:
  "fst (ejecutar (p # ps) db) = fst (atender p db) # fst (ejecutar ps (snd (atender p db)))"
  by (simp add: split_beta)

lemma tabla_ok_ejecutar: "tabla_ok db \<Longrightarrow> tabla_ok (snd (ejecutar ps db))"
proof (induction ps arbitrary: db)
  case Nil
  then show ?case by simp
next
  case (Cons p ps)
  from Cons.IH[OF tabla_ok_atender[OF Cons.prems]] show ?case
    by (simp only: ejecutar_snd_Cons)
qed

lemma tabla_ok_vacia: "tabla_ok bd_vacia"
  by (simp add: tabla_ok_def bd_vacia_def claves_def)

lemma put_no_201: "fst (fst (put_producto pid u db)) \<noteq> 201"
proof (cases "db_get pid db")
  case None
  then show ?thesis
    by (cases "ProductoUpdate u")
       (simp_all add: put_producto_def actualizar_producto_def http_422_def http_404_def)
next
  case (Some f0)
  from put_casos[OF Some, of u] show ?thesis
    by (auto simp: http_422_def http_500_def responder_def split: if_splits)
qed

lemma put_longitud: "length (productos (snd (put_producto pid u db))) = length (productos db)"
  using arg_cong[OF put_claves[of pid u db], of length] by (simp add: claves_def)

lemma atender_cuenta:
  assumes "\<forall>pid. p \<noteq> DELETE pid"
  shows "length (productos (snd (atender p db)))
           = length (productos db) + (if fst (fst (atender p db)) = 201 then 1 else 0)"
proof (cases p)
  case (POST c)
  from post_casos[of c db] show ?thesis using POST by auto
next
  case GET_lista
  then show ?thesis by (simp add: obtener_productos_def http_500_def Let_def)
next
  case (GET pid)
  then show ?thesis
    by (cases "db_get pid db") (simp_all add: obtener_producto_def http_404_def responder_def http_500_def)
next
  case (PUT pid u)
  then show ?thesis by (simp add: put_no_201 put_longitud)
next
  case (DELETE pid)
  then show ?thesis using assms by simp
qed

lemma ejecutar_cuenta:
  assumes "\<forall>pid. DELETE pid \<notin> set ps"
  shows "length (productos (snd (ejecutar ps db)))
           = length (productos db) + length (filter (\<lambda>r. fst r = 201) (fst (ejecutar ps db)))"
  using assms
proof (induction ps arbitrary: db)
  case Nil
  then show ?case by simp
next
  case (Cons p ps)
  from Cons.prems have p: "\<forall>pid. p \<noteq> DELETE pid" and ps: "\<forall>pid. DELETE pid \<notin> set ps"
    by auto
  from Cons.IH[OF ps, of "snd (atender p db)"] atender_cuenta[OF p, of db] show ?case
    by (simp only: ejecutar_snd_Cons ejecutar_fst_Cons) simp
qed

lemma listado_tabla_ok:
  assumes "tabla_ok db"
  shows "obtener_productos db = ((200, Lista (sort_key producto_id (productos db))), db)"
    and "sorted_wrt (<) (map producto_id (sort_key producto_id (productos db)))"
proof -
  show "obtener_productos db = ((200, Lista (sort_key producto_id (productos db))), db)"
    using assms by (simp add: obtener_productos_def tabla_ok_def list_all_iff)
  have "distinct (map producto_id (sort_key producto_id (productos db)))"
    using assms by (simp add: tabla_ok_def claves_def distinct_map)
  moreover have "sorted (map producto_id (sort_key producto_id (productos db)))"
    by simp
  ultimately show "sorted_wrt (<) (map producto_id (sort_key producto_id (productos db)))"
    by (simp add: strict_sorted_iff)
qed

section \<open>Creation\<close>

text \<open>
  C4. A creation request whose price is zero or negative, or whose stock is negative, is
  answered 422 by the validation of \<^verbatim>\<open>ProductoCreate\<close>; the handler is not called,
  so the store is the one before the request and the listing is the same.
\<close>

theorem crear_invalido_422:
  assumes "(\<exists>p. c_precio c = Valor p \<and> p \<le> 0) \<or> (\<exists>s. c_stock c = Valor s \<and> s < 0)"
  shows "post_productos c db = ((422, ErroresValidacion), db)
         \<and> ProductoCreate c = None
         \<and> obtener_productos (snd (post_productos c db)) = obtener_productos db"
proof -
  have none: "ProductoCreate c = None"
  proof (cases "ProductoCreate c")
    case (Some p)
    from ProductoCreate_Some[OF Some] assms show ?thesis
      by (auto simp: precio_ok_def stock_ok_def)
  qed simp
  then show ?thesis by (simp add: post_productos_def http_422_def)
qed

theorem crear_invalido_422_witness:
  "c_stock (cuerpo_monitor\<lparr>c_stock := Valor (- 1)\<rparr>) = Valor (- 1) \<and> (- 1 :: int) < 0
   \<and> post_productos (cuerpo_monitor\<lparr>c_stock := Valor (- 1)\<rparr>) bd_monitor
       = ((422, ErroresValidacion), bd_monitor)"
  using crear_invalido_422 [of "cuerpo_monitor\<lparr>c_stock := Valor (- 1)\<rparr>" bd_monitor]
  by simp

text \<open>
  C3. When a creation has answered 201 with an entity, reading the key of that entity
  from the store the creation left answers 200 with the same entity, hence the same
  name, description, price, stock and category.
\<close>

theorem obtener_tras_crear:
  assumes "post_productos c db = ((201, Entidad f), db')"
  shows "obtener_producto (producto_id f) db' = ((200, Entidad f), db')"
proof -
  from post_201[OF assms] obtain p where p: "crear_producto p db = ((201, Entidad f), db')"
    by blast
  from crear_201[OF p] have ins: "commit_insert (Producto (model_dump p)) db = Inr (f, db')"
    and ok: "ProductoResponse f" by simp_all
  from commit_insert_Inr[OF ins] have fresh: "producto_id f \<notin> set (claves db)"
    and db': "productos db' = productos db @ [f]" by simp_all
  have "\<forall>g \<in> set (productos db). \<not> producto_id g = producto_id f"
    using clave_libre[OF fresh] by blast
  then have "db_get (producto_id f) db' = Some f"
    unfolding db_get_def db' by (rule find_append_new) simp
  then show ?thesis using ok by (simp add: obtener_producto_def responder_def)
qed

theorem obtener_tras_crear_witness:
  "post_productos cuerpo_monitor bd_vacia = ((201, Entidad fila_monitor), bd_monitor)
   \<and> obtener_producto 1 bd_monitor = ((200, Entidad fila_monitor), bd_monitor)"
proof -
  have h: "post_productos cuerpo_monitor bd_vacia = ((201, Entidad fila_monitor), bd_monitor)"
    by (simp add: evaluar)
  have "producto_id fila_monitor = 1" by (simp add: fila_monitor_def)
  with obtener_tras_crear [OF h] h show ?thesis by simp
qed

text \<open>
  C2. The claim promises 201 for every body that satisfies the constraints on name,
  description, price and stock. \<^verbatim>\<open>ProductoCreate\<close> accepts such a body whatever
  its category, but the column is \<^verbatim>\<open>String(50)\<close>: with a category of 51 letters
  the insert fails at commit and the request ends in the unhandled error, 500, with
  nothing stored. The name and the description are validated to the width of their
  columns (100 and 350); the category is not.
\<close>

theorem crear_categoria_larga:
  "ProductoCreate (cuerpo_monitor\<lparr>c_categoria := Valor (replicate 51 CHR ''a'')\<rparr>)
     = Some \<lparr>nombre = ''Monitor'', descripcion = ''4K display'', precio = 399.99, stock = 75,
             categoria = Some (replicate 51 CHR ''a'')\<rparr>
   \<and> post_productos (cuerpo_monitor\<lparr>c_categoria := Valor (replicate 51 CHR ''a'')\<rparr>) bd_vacia
       = ((500, ErrorInterno), bd_vacia)"
  by (simp add: evaluar)

text \<open>
  Validation and columns agree otherwise. A body that passes \<^verbatim>\<open>ProductoCreate\<close>,
  whose category is absent or of at most 50 characters, whose strings hold no NUL
  character and whose stock is a 32-bit integer is answered 201, while the sequence
  lasts, with an entity that has the fields of the body and the next value of the
  sequence as its identifier, and that entity is the row appended to the table.
\<close>

lemma crear_valido_201:
  assumes v: "ProductoCreate c = Some p"
    and n: "CHR 0x00 \<notin> set (nombre p)" and d: "CHR 0x00 \<notin> set (descripcion p)"
    and i: "int4 (stock p)"
    and k: "case categoria p of None \<Rightarrow> True | Some k \<Rightarrow> texto_ok 50 k"
    and q: "int4 (productos_id_seq db)"
    and s: "productos_id_seq db \<notin> set (claves db)"
  shows "\<exists>f. post_productos c db =
              ((201, Entidad f),
               db\<lparr>productos := productos db @ [f], productos_id_seq := productos_id_seq db + 1\<rparr>)
           \<and> nombre f = nombre p \<and> descripcion f = descripcion p \<and> precio f = precio p
           \<and> stock f = stock p \<and> categoria f = categoria p
           \<and> producto_id f = productos_id_seq db"
proof -
  let ?f = "\<lparr>nombre = nombre p, descripcion = descripcion p, precio = precio p,
             stock = stock p, categoria = categoria p, producto_id = productos_id_seq db\<rparr>"
  note ok = ProductoCreate_Some[OF v]
  have cat: "col_string_null 50 (case categoria p of None \<Rightarrow> VNone | Some k \<Rightarrow> VStr k)
               = Inr (categoria p)"
    using k by (cases "categoria p") (simp_all add: texto_ok_def varchar_corto)
  have f: "fila_de (productos_id_seq db) (Producto (model_dump p)) = Inr ?f"
    using ok cat n d i
    by (simp add: fila_de_def atributos_nuevos varchar_corto nombre_ok_def descripcion_ok_def)
  have r: "ProductoResponse ?f"
    using ok by (simp add: ProductoResponse_def)
  have "post_productos c db =
          ((201, Entidad ?f),
           db\<lparr>productos := productos db @ [?f], productos_id_seq := productos_id_seq db + 1\<rparr>)"
    using v f r s q
    by (simp add: post_productos_def crear_producto_def commit_insert_def responder_def)
  then show ?thesis by (intro exI[of _ ?f]) simp
qed

section \<open>Identifiers\<close>

text \<open>
  C8. The key of a product comes from the store at creation and no update changes it.
  A body has no key field, so a creation that answers 201 returns the value of the
  sequence, which no stored row has, and appends that row without touching the others;
  and whatever its body and outcome, an update leaves the keys of the table, row by row,
  as they were.
\<close>

theorem id_inmutable:
  "(post_productos c db = ((201, Entidad f), db')
      \<longrightarrow> producto_id f = productos_id_seq db \<and> producto_id f \<notin> set (claves db)
          \<and> productos db' = productos db @ [f])
   \<and> claves (snd (put_producto pid u db)) = claves db"
proof (intro conjI impI)
  assume a: "post_productos c db = ((201, Entidad f), db')"
  from post_201[OF a] obtain p where p: "crear_producto p db = ((201, Entidad f), db')"
    by blast
  from crear_201[OF p] have ins: "commit_insert (Producto (model_dump p)) db = Inr (f, db')"
    by simp
  from commit_insert_Inr[OF ins]
  show "producto_id f = productos_id_seq db" "producto_id f \<notin> set (claves db)"
    "productos db' = productos db @ [f]"
    by (auto dest: fila_de_id)
next
  show "claves (snd (put_producto pid u db)) = claves db"
    by (rule put_claves)
qed

theorem id_inmutable_witness:
  "post_productos cuerpo_monitor bd_monitor
     = ((201, Entidad (fila_monitor\<lparr>producto_id := 2\<rparr>)),
        \<lparr>productos = [fila_monitor, fila_monitor\<lparr>producto_id := 2\<rparr>], productos_id_seq = 3\<rparr>)
   \<and> producto_id (fila_monitor\<lparr>producto_id := 2\<rparr>) = productos_id_seq bd_monitor
   \<and> claves (snd (put_producto 1 (sin_campos\<lparr>c_stock := Valor 10\<rparr>) bd_monitor)) = [1]"
proof -
  have h: "post_productos cuerpo_monitor bd_monitor
     = ((201, Entidad (fila_monitor\<lparr>producto_id := 2\<rparr>)),
        \<lparr>productos = [fila_monitor, fila_monitor\<lparr>producto_id := 2\<rparr>], productos_id_seq = 3\<rparr>)"
    by (simp add: evaluar)
  have k: "claves bd_monitor = [1]" by (simp add: evaluar)
  from id_inmutable [of cuerpo_monitor bd_monitor "fila_monitor\<lparr>producto_id := 2\<rparr>"
      "\<lparr>productos = [fila_monitor, fila_monitor\<lparr>producto_id := 2\<rparr>], productos_id_seq = 3\<rparr>"
      1 "sin_campos\<lparr>c_stock := Valor 10\<rparr>"] h k
  show ?thesis by simp
qed

section \<open>Absent identifiers\<close>

text \<open>
  C6, as stated: for an identifier that is not in the store, PUT answers 404. It does
  not when the body fails validation: the framework answers 422 before the handler
  looks the identifier up.
\<close>

theorem put_ausente_invalido_422:
  "db_get 7 bd_vacia = None
   \<and> put_producto 7 (sin_campos\<lparr>c_precio := Valor (- 1)\<rparr>) bd_vacia
       = ((422, ErroresValidacion), bd_vacia)
   \<and> fst (put_producto 7 (sin_campos\<lparr>c_precio := Valor (- 1)\<rparr>) bd_vacia)
       \<noteq> (404, Detalle ''Producto no encontrado'')"
  by (simp add: evaluar)

text \<open>
  C6, amended. For an identifier that is not in the store (as is any identifier just
  deleted), GET and DELETE answer 404 with the detail \<^verbatim>\<open>Producto no encontrado\<close>,
  and so does PUT with a body that passes validation; PUT with a body that fails
  validation answers 422. In every case the store is unchanged.
\<close>

theorem no_encontrado_404:
  assumes "db_get pid db = None"
  shows "obtener_producto pid db = ((404, Detalle ''Producto no encontrado''), db)
       \<and> eliminar_producto pid db = ((404, Detalle ''Producto no encontrado''), db)
       \<and> (ProductoUpdate c \<noteq> None \<longrightarrow>
            put_producto pid c db = ((404, Detalle ''Producto no encontrado''), db))
       \<and> (ProductoUpdate c = None \<longrightarrow>
            put_producto pid c db = ((422, ErroresValidacion), db))
       \<and> db_get pid (snd (eliminar_producto pid db0)) = None"
proof -
  have "db_get pid (snd (eliminar_producto pid db0)) = None"
    by (cases "db_get pid db0") (simp_all add: eliminar_producto_def db_get_commit_delete)
  then show ?thesis using assms
    by (auto simp: obtener_producto_def eliminar_producto_def put_producto_def
        actualizar_producto_def http_404_def http_422_def)
qed

theorem no_encontrado_404_witness:
  "db_get 7 bd_monitor = None
   \<and> obtener_producto 7 bd_monitor = ((404, Detalle ''Producto no encontrado''), bd_monitor)
   \<and> eliminar_producto 7 bd_monitor = ((404, Detalle ''Producto no encontrado''), bd_monitor)
   \<and> put_producto 7 (sin_campos\<lparr>c_stock := Valor 10\<rparr>) bd_monitor
       = ((404, Detalle ''Producto no encontrado''), bd_monitor)"
proof -
  have h: "db_get 7 bd_monitor = None" by (simp add: evaluar)
  have v: "ProductoUpdate (sin_campos\<lparr>c_stock := Valor 10\<rparr>) \<noteq> None" by (simp add: evaluar)
  from no_encontrado_404 [OF h, of "sin_campos\<lparr>c_stock := Valor 10\<rparr>"] h v
  show ?thesis by simp
qed

section \<open>Deletion\<close>

text \<open>
  C7. For an identifier in the store, DELETE answers 204 with an empty body and removes
  the row for good: no row of that key is left, the rows of every other key are found as
  before and the sequence is untouched. The status reports whether a row was removed:
  for any identifier and store, it is 204 exactly when the table has changed.
\<close>

theorem eliminar_presente:
  assumes "db_get pid db = Some f"
  shows "fst (eliminar_producto pid db) = (204, SinContenido)
       \<and> db_get pid (snd (eliminar_producto pid db)) = None
       \<and> f \<notin> set (productos (snd (eliminar_producto pid db)))
       \<and> productos (snd (eliminar_producto pid db))
           = filter (\<lambda>g. producto_id g \<noteq> pid) (productos db)
       \<and> (\<forall>q. q \<noteq> pid \<longrightarrow> db_get q (snd (eliminar_producto pid db)) = db_get q db)
       \<and> productos_id_seq (snd (eliminar_producto pid db)) = productos_id_seq db
       \<and> (fst (eliminar_producto q db0) = (204, SinContenido)
            \<longleftrightarrow> productos (snd (eliminar_producto q db0)) \<noteq> productos db0)"
proof -
  have rep: "fst (eliminar_producto q db0) = (204, SinContenido)
            \<longleftrightarrow> productos (snd (eliminar_producto q db0)) \<noteq> productos db0"
  proof (cases "db_get q db0")
    case None
    then show ?thesis by (simp add: eliminar_producto_def http_404_def)
  next
    case (Some g)
    from db_get_mem[OF Some] have "length (filter (\<lambda>g. producto_id g \<noteq> q) (productos db0))
        < length (productos db0)" by (intro filter_quita[of g]) auto
    then have "filter (\<lambda>g. producto_id g \<noteq> q) (productos db0) \<noteq> productos db0" by auto
    then show ?thesis using Some by (simp add: eliminar_producto_def commit_delete_def)
  qed
  have e: "eliminar_producto pid db = ((204, SinContenido), commit_delete pid db)"
    using assms by (simp add: eliminar_producto_def)
  from db_get_mem[OF assms] have "f \<notin> set (productos (commit_delete pid db))"
    by (simp add: commit_delete_def)
  then show ?thesis using rep
    by (simp add: e db_get_commit_delete) (simp add: commit_delete_def)
qed

theorem eliminar_presente_witness:
  "db_get 1 bd_monitor = Some fila_monitor
   \<and> fst (eliminar_producto 1 bd_monitor) = (204, SinContenido)
   \<and> productos (snd (eliminar_producto 1 bd_monitor)) = []"
proof -
  have h: "db_get 1 bd_monitor = Some fila_monitor" by (simp add: evaluar)
  have "filter (\<lambda>g. producto_id g \<noteq> 1) (productos bd_monitor) = []" by (simp add: evaluar)
  with eliminar_presente [OF h] h show ?thesis by simp
qed

section \<open>Update\<close>

text \<open>
  C1. Let a product be stored under an identifier, in a row that fits its columns. After
  any PUT on that identifier, whatever its body and its outcome, the product is still
  stored under the same key, every field that the body leaves out has its prior value
  (nothing omitted is reset to null or to a default), every other product is found as
  before and the sequence is untouched. The answer is 200 whenever the stored row passes
  the response model and the body passes validation and fits the columns; and when it is
  200 it carries the stored row, in which a given name, description, price or stock is
  the value of the body and the category is the one given (cut to the width of its
  column), or null when null was given. In particular the body \<^verbatim>\<open>{"stock": 10}\<close>
  leaves the row with stock 10 and every other field as before, and is answered 200 with
  that row whenever the stored row passes the response model.
\<close>

theorem actualizacion_parcial:
  assumes g: "db_get pid db = Some f" and c: "columnas_ok f"
  shows "\<exists>f'. db_get pid (snd (put_producto pid u db)) = Some f'
       \<and> producto_id f' = producto_id f
       \<and> (c_nombre u = Ausente \<longrightarrow> nombre f' = nombre f)
       \<and> (c_descripcion u = Ausente \<longrightarrow> descripcion f' = descripcion f)
       \<and> (c_precio u = Ausente \<longrightarrow> precio f' = precio f)
       \<and> (c_stock u = Ausente \<longrightarrow> stock f' = stock f)
       \<and> (c_categoria u = Ausente \<longrightarrow> categoria f' = categoria f)
       \<and> (fst (fst (put_producto pid u db)) = 200 \<longrightarrow>
            fst (put_producto pid u db) = (200, Entidad f')
            \<and> (\<forall>v. c_nombre u = Valor v \<longrightarrow> nombre f' = v)
            \<and> (\<forall>v. c_descripcion u = Valor v \<longrightarrow> descripcion f' = v)
            \<and> (\<forall>v. c_precio u = Valor v \<longrightarrow> precio f' = v)
            \<and> (\<forall>v. c_stock u = Valor v \<longrightarrow> stock f' = v)
            \<and> (\<forall>k. c_categoria u = Valor k \<longrightarrow> categoria f' = Some (take 50 k))
            \<and> (c_categoria u = Nulo \<longrightarrow> categoria f' = None))
       \<and> (ProductoResponse f \<and> ProductoUpdate u \<noteq> None \<and> almacenable u \<longrightarrow>
            fst (fst (put_producto pid u db)) = 200)
       \<and> (\<forall>q. q \<noteq> pid \<longrightarrow> db_get q (snd (put_producto pid u db)) = db_get q db)
       \<and> productos_id_seq (snd (put_producto pid u db)) = productos_id_seq db
       \<and> (u = sin_campos\<lparr>c_stock := Valor 10\<rparr> \<longrightarrow>
            f' = f\<lparr>stock := 10\<rparr>
            \<and> (ProductoResponse f \<longrightarrow>
                 fst (put_producto pid u db) = (200, Entidad (f\<lparr>stock := 10\<rparr>))))"
proof -
  from put_marco[OF g c, of u] obtain f' where
    get: "db_get pid (snd (put_producto pid u db)) = Some f'" and
    rest: "producto_id f' = producto_id f
       \<and> (c_nombre u = Ausente \<longrightarrow> nombre f' = nombre f)
       \<and> (c_descripcion u = Ausente \<longrightarrow> descripcion f' = descripcion f)
       \<and> (c_precio u = Ausente \<longrightarrow> precio f' = precio f)
       \<and> (c_stock u = Ausente \<longrightarrow> stock f' = stock f)
       \<and> (c_categoria u = Ausente \<longrightarrow> categoria f' = categoria f)
       \<and> (fst (fst (put_producto pid u db)) = 200 \<longrightarrow>
            fst (put_producto pid u db) = (200, Entidad f')
            \<and> (\<forall>v. c_nombre u = Valor v \<longrightarrow> nombre f' = v)
            \<and> (\<forall>v. c_descripcion u = Valor v \<longrightarrow> descripcion f' = v)
            \<and> (\<forall>v. c_precio u = Valor v \<longrightarrow> precio f' = v)
            \<and> (\<forall>v. c_stock u = Valor v \<longrightarrow> stock f' = v)
            \<and> (\<forall>k. c_categoria u = Valor k \<longrightarrow> categoria f' = Some (take 50 k))
            \<and> (c_categoria u = Nulo \<longrightarrow> categoria f' = None))
       \<and> (ProductoResponse f \<and> ProductoUpdate u \<noteq> None \<and> almacenable u \<longrightarrow>
            fst (fst (put_producto pid u db)) = 200)
       \<and> (\<forall>q. q \<noteq> pid \<longrightarrow> db_get q (snd (put_producto pid u db)) = db_get q db)
       \<and> productos_id_seq (snd (put_producto pid u db)) = productos_id_seq db"
    by (elim exE) (erule conjE, rule that)
  have ej: "u = sin_campos\<lparr>c_stock := Valor 10\<rparr> \<longrightarrow>
            f' = f\<lparr>stock := 10\<rparr>
            \<and> (ProductoResponse f \<longrightarrow>
                 fst (put_producto pid u db) = (200, Entidad (f\<lparr>stock := 10\<rparr>)))"
  proof
    assume u: "u = sin_campos\<lparr>c_stock := Valor 10\<rparr>"
    from put_solo_stock_10[OF g c] get
    show "f' = f\<lparr>stock := 10\<rparr>
            \<and> (ProductoResponse f \<longrightarrow>
                 fst (put_producto pid u db) = (200, Entidad (f\<lparr>stock := 10\<rparr>)))"
      unfolding u by simp
  qed
  from conjI[OF get conjI[OF rest ej]] show ?thesis
    unfolding conj_assoc by (rule exI)
qed

theorem actualizacion_parcial_witness:
  "db_get 1 bd_monitor = Some fila_monitor \<and> columnas_ok fila_monitor
   \<and> db_get 1 (snd (put_producto 1 (sin_campos\<lparr>c_stock := Valor 10\<rparr>) bd_monitor))
       = Some (fila_monitor\<lparr>stock := 10\<rparr>)
   \<and> fst (put_producto 1 (sin_campos\<lparr>c_stock := Valor 10\<rparr>) bd_monitor)
       = (200, Entidad (fila_monitor\<lparr>stock := 10\<rparr>))
   \<and> ProductoResponse fila_monitor
   \<and> ProductoUpdate (sin_campos\<lparr>c_precio := Valor 379.99, c_categoria := Nulo\<rparr>) \<noteq> None
   \<and> almacenable (sin_campos\<lparr>c_precio := Valor 379.99, c_categoria := Nulo\<rparr>)
   \<and> fst (put_producto 1 (sin_campos\<lparr>c_precio := Valor 379.99, c_categoria := Nulo\<rparr>)
        bd_monitor)
       = (200, Entidad (fila_monitor\<lparr>precio := 379.99, categoria := None\<rparr>))"
proof -
  let ?u = "sin_campos\<lparr>c_stock := Valor 10\<rparr>"
  let ?w = "sin_campos\<lparr>c_precio := Valor 379.99, c_categoria := Nulo\<rparr>"
  have g: "db_get 1 bd_monitor = Some fila_monitor" by (simp add: evaluar)
  have c: "columnas_ok fila_monitor" by (simp add: evaluar)
  have r: "ProductoResponse fila_monitor" by (simp add: evaluar)
  have v: "ProductoUpdate ?w \<noteq> None" by (simp add: evaluar)
  have a: "almacenable ?w" by (simp add: almacenable_def sin_campos_def)
  from actualizacion_parcial [OF g c, of ?u]
  obtain f' where
    1: "db_get 1 (snd (put_producto 1 ?u bd_monitor)) = Some f'"
    and 2: "?u = ?u \<longrightarrow>
            f' = fila_monitor\<lparr>stock := 10\<rparr>
            \<and> (ProductoResponse fila_monitor \<longrightarrow>
                 fst (put_producto 1 ?u bd_monitor)
                   = (200, Entidad (fila_monitor\<lparr>stock := 10\<rparr>)))"
    by (elim exE conjE) (rule that)
  from 2 have 3: "f' = fila_monitor\<lparr>stock := 10\<rparr>"
    and imp: "ProductoResponse fila_monitor \<longrightarrow>
       fst (put_producto 1 ?u bd_monitor) = (200, Entidad (fila_monitor\<lparr>stock := 10\<rparr>))"
    by simp_all
  from imp r
  have 4: "fst (put_producto 1 ?u bd_monitor) = (200, Entidad (fila_monitor\<lparr>stock := 10\<rparr>))"
    by (rule mp)
  have get10: "db_get 1 (snd (put_producto 1 ?u bd_monitor)) = Some (fila_monitor\<lparr>stock := 10\<rparr>)"
    using 1 unfolding 3 .
  from actualizacion_parcial [OF g c, of ?w]
  obtain h' where
    5: "ProductoResponse fila_monitor \<and> ProductoUpdate ?w \<noteq> None \<and> almacenable ?w \<longrightarrow>
          fst (fst (put_producto 1 ?w bd_monitor)) = 200"
    and 6: "db_get 1 (snd (put_producto 1 ?w bd_monitor)) = Some h'"
    by (elim exE conjE) (rule that)
  from 5 conjI[OF r conjI[OF v a]]
  have 7: "fst (fst (put_producto 1 ?w bd_monitor)) = 200" by (rule mp)
  have 8: "fst (put_producto 1 ?w bd_monitor)
             = (200, Entidad (fila_monitor\<lparr>precio := 379.99, categoria := None\<rparr>))"
    by (simp add: evaluar)
  show ?thesis by (intro conjI g c get10 4 r v a 8)
qed

text \<open>
  C9. If every stored product has a positive price, a non-negative stock and a
  non-empty name and description, then so has every stored product after any creation
  request and after any update request, whatever their bodies and outcomes. The empty
  table satisfies the condition, so it holds after every create and every update.
\<close>

theorem invariante_campos:
  assumes "\<forall>f \<in> set (productos db).
             0 < precio f \<and> 0 \<le> stock f \<and> nombre f \<noteq> [] \<and> descripcion f \<noteq> []"
  shows "(\<forall>f \<in> set (productos (snd (post_productos c db))).
             0 < precio f \<and> 0 \<le> stock f \<and> nombre f \<noteq> [] \<and> descripcion f \<noteq> [])
       \<and> (\<forall>f \<in> set (productos (snd (put_producto pid u db))).
             0 < precio f \<and> 0 \<le> stock f \<and> nombre f \<noteq> [] \<and> descripcion f \<noteq> [])"
proof (intro conjI)
  show "\<forall>f \<in> set (productos (snd (post_productos c db))).
             0 < precio f \<and> 0 \<le> stock f \<and> nombre f \<noteq> [] \<and> descripcion f \<noteq> []"
  proof (cases "ProductoCreate c")
    case None
    then show ?thesis using assms by (simp add: post_productos_def)
  next
    case (Some p)
    show ?thesis
    proof (cases "commit_insert (Producto (model_dump p)) db")
      case (Inl x)
      then show ?thesis using Some assms by (simp add: post_productos_def crear_producto_def)
    next
      case (Inr r)
      obtain f db' where r: "r = (f, db')" by (cases r)
      from commit_insert_Inr[OF Inr[unfolded r]]
      have f: "fila_de (productos_id_seq db) (Producto (model_dump p)) = Inr f"
        and db': "productos db' = productos db @ [f]" by simp_all
      from fila_creada[OF Some f] have "ProductoResponse f" by simp
      then have "0 < precio f \<and> 0 \<le> stock f \<and> nombre f \<noteq> [] \<and> descripcion f \<noteq> []"
        by (auto simp: ProductoResponse_def nombre_ok_def descripcion_ok_def precio_ok_def
            stock_ok_def)
      then show ?thesis using Some Inr r db' assms
        by (simp add: post_productos_def crear_producto_def)
    qed
  qed
next
  show "\<forall>f \<in> set (productos (snd (put_producto pid u db))).
             0 < precio f \<and> 0 \<le> stock f \<and> nombre f \<noteq> [] \<and> descripcion f \<noteq> []"
  proof (cases "db_get pid db")
    case None
    then show ?thesis using assms
      by (cases "ProductoUpdate u") (simp_all add: put_producto_def actualizar_producto_def)
  next
    case (Some f0)
    from db_get_mem[OF Some] assms
    have old: "0 < precio f0 \<and> 0 \<le> stock f0 \<and> nombre f0 \<noteq> [] \<and> descripcion f0 \<noteq> []"
      by blast
    from put_casos[OF Some, of u] show ?thesis
    proof (elim disjE exE conjE)
      fix f
      assume v: "ProductoUpdate u = Some u"
        and f: "fila_de pid (asignar u (cargar f0)) = Inr f"
        and r: "put_producto pid u db =
                  (responder 200 f,
                   db\<lparr>productos := map (\<lambda>g. if producto_id g = pid then f else g) (productos db)\<rparr>)"
      from fila_actualizada_valida[OF v f old] assms show ?thesis
        by (auto simp: r)
    qed (use assms in simp_all)
  qed
qed

theorem invariante_campos_witness:
  "fila_monitor\<lparr>precio := 379.99\<rparr>
     \<in> set (productos (snd (put_producto 1 (sin_campos\<lparr>c_precio := Valor 379.99\<rparr>) bd_monitor)))
   \<and> 0 < precio (fila_monitor\<lparr>precio := 379.99\<rparr>)
   \<and> 0 \<le> stock (fila_monitor\<lparr>precio := 379.99\<rparr>)
   \<and> nombre (fila_monitor\<lparr>precio := 379.99\<rparr>) \<noteq> []
   \<and> descripcion (fila_monitor\<lparr>precio := 379.99\<rparr>) \<noteq> []"
proof -
  have h: "\<forall>f \<in> set (productos bd_monitor).
             0 < precio f \<and> 0 \<le> stock f \<and> nombre f \<noteq> [] \<and> descripcion f \<noteq> []"
    by (simp add: bd_monitor_def fila_monitor_def)
  have m: "fila_monitor\<lparr>precio := 379.99\<rparr>
     \<in> set (productos (snd (put_producto 1 (sin_campos\<lparr>c_precio := Valor 379.99\<rparr>) bd_monitor)))"
    by (simp add: evaluar)
  have "\<forall>f \<in> set (productos (snd (put_producto 1 (sin_campos\<lparr>c_precio := Valor 379.99\<rparr>)
              bd_monitor))).
          0 < precio f \<and> 0 \<le> stock f \<and> nombre f \<noteq> [] \<and> descripcion f \<noteq> []"
    using invariante_campos [OF h, of cuerpo_monitor 1 "sin_campos\<lparr>c_precio := Valor 379.99\<rparr>"]
    by (rule conjunct2)
  then have r: "0 < precio (fila_monitor\<lparr>precio := 379.99\<rparr>)
      \<and> 0 \<le> stock (fila_monitor\<lparr>precio := 379.99\<rparr>)
      \<and> nombre (fila_monitor\<lparr>precio := 379.99\<rparr>) \<noteq> []
      \<and> descripcion (fila_monitor\<lparr>precio := 379.99\<rparr>) \<noteq> []"
    using m by (rule bspec)
  show ?thesis by (rule conjI[OF m r])
qed



section \<open>Listing\<close>

text \<open>
  C5. In a table whose rows pass the response model, GET /productos answers 200 with
  all the stored rows, each once, by ascending identifier, and with the empty list when
  there is no row. Every table that the service reaches from the empty one, by any
  sequence of requests, is such a table: there the listing is in strictly ascending
  order of identifier, and when no request of the sequence was a DELETE it has exactly
  as many entries as creations were answered 201.
\<close>

theorem listado_ordenado:
  "(list_all ProductoResponse (productos db) \<longrightarrow>
      (\<exists>l. obtener_productos db = ((200, Lista l), db)
          \<and> sorted (map producto_id l) \<and> set l = set (productos db)
          \<and> length l = length (productos db)
          \<and> (productos db = [] \<longrightarrow> l = [])))
   \<and> (\<exists>l. fst (obtener_productos (snd (ejecutar ps bd_vacia))) = (200, Lista l)
          \<and> sorted_wrt (<) (map producto_id l)
          \<and> set l = set (productos (snd (ejecutar ps bd_vacia)))
          \<and> ((\<forall>pid. DELETE pid \<notin> set ps) \<longrightarrow>
                length l = length (filter (\<lambda>r. fst r = 201) (fst (ejecutar ps bd_vacia)))))"
proof (intro conjI impI)
  assume a: "list_all ProductoResponse (productos db)"
  let ?l = "sort_key producto_id (productos db)"
  have "obtener_productos db = ((200, Lista ?l), db)"
    using a by (simp add: obtener_productos_def list_all_iff)
  moreover have "sorted (map producto_id ?l)" by simp
  moreover have "set ?l = set (productos db)" "length ?l = length (productos db)" by simp_all
  moreover have "productos db = [] \<longrightarrow> ?l = []" by simp
  ultimately show "\<exists>l. obtener_productos db = ((200, Lista l), db)
          \<and> sorted (map producto_id l) \<and> set l = set (productos db)
          \<and> length l = length (productos db)
          \<and> (productos db = [] \<longrightarrow> l = [])" by blast
next
  let ?db = "snd (ejecutar ps bd_vacia)"
  let ?l = "sort_key producto_id (productos ?db)"
  have ok: "tabla_ok ?db" by (rule tabla_ok_ejecutar[OF tabla_ok_vacia])
  have 1: "fst (obtener_productos ?db) = (200, Lista ?l)"
    using listado_tabla_ok(1)[OF ok] by simp
  have 2: "sorted_wrt (<) (map producto_id ?l)" by (rule listado_tabla_ok(2)[OF ok])
  have 3: "set ?l = set (productos ?db)" by simp
  have 4: "(\<forall>pid. DELETE pid \<notin> set ps) \<longrightarrow>
             length ?l = length (filter (\<lambda>r. fst r = 201) (fst (ejecutar ps bd_vacia)))"
    using ejecutar_cuenta[of ps bd_vacia] by (simp add: bd_vacia_def)
  from 1 2 3 4 show "\<exists>l. fst (obtener_productos ?db) = (200, Lista l)
          \<and> sorted_wrt (<) (map producto_id l)
          \<and> set l = set (productos ?db)
          \<and> ((\<forall>pid. DELETE pid \<notin> set ps) \<longrightarrow>
                length l = length (filter (\<lambda>r. fst r = 201) (fst (ejecutar ps bd_vacia))))"
    by blast
qed

theorem listado_ordenado_witness:
  "obtener_productos bd_monitor = ((200, Lista [fila_monitor]), bd_monitor)
   \<and> fst (obtener_productos (snd (ejecutar
        [POST cuerpo_monitor, POST (cuerpo_monitor\<lparr>c_precio := Valor 0\<rparr>), POST cuerpo_monitor]
        bd_vacia)))
       = (200, Lista [fila_monitor, fila_monitor\<lparr>producto_id := 2\<rparr>])
   \<and> length (filter (\<lambda>r. fst r = 201) (fst (ejecutar
        [POST cuerpo_monitor, POST (cuerpo_monitor\<lparr>c_precio := Valor 0\<rparr>), POST cuerpo_monitor]
        bd_vacia))) = 2"
proof -
  let ?ps = "[POST cuerpo_monitor, POST (cuerpo_monitor\<lparr>c_precio := Valor 0\<rparr>),
              POST cuerpo_monitor]"
  let ?db = "\<lparr>productos = [fila_monitor, fila_monitor\<lparr>producto_id := 2\<rparr>],
             productos_id_seq = 3\<rparr>"
  have d: "\<forall>pid. DELETE pid \<notin> set ?ps" by simp
  have p1: "post_productos cuerpo_monitor bd_vacia = ((201, Entidad fila_monitor), bd_monitor)"
    by (simp add: evaluar)
  have p2: "post_productos (cuerpo_monitor\<lparr>c_precio := Valor 0\<rparr>) bd_monitor
              = ((422, ErroresValidacion), bd_monitor)"
    by (simp add: evaluar)
  have p3: "post_productos cuerpo_monitor bd_monitor
              = ((201, Entidad (fila_monitor\<lparr>producto_id := 2\<rparr>)), ?db)"
    by (simp add: evaluar)
  have e: "ejecutar ?ps bd_vacia
             = ([(201, Entidad fila_monitor), (422, ErroresValidacion),
                 (201, Entidad (fila_monitor\<lparr>producto_id := 2\<rparr>))], ?db)"
    by (simp add: p1 p2 p3)
  have o1: "obtener_productos bd_monitor = ((200, Lista [fila_monitor]), bd_monitor)"
    by (simp add: evaluar)
  have o2: "fst (obtener_productos ?db)
              = (200, Lista [fila_monitor, fila_monitor\<lparr>producto_id := 2\<rparr>])"
    by (simp add: evaluar)
  from listado_ordenado [of bd_monitor ?ps]
  have "\<exists>l. fst (obtener_productos (snd (ejecutar ?ps bd_vacia))) = (200, Lista l)
          \<and> sorted_wrt (<) (map producto_id l)
          \<and> set l = set (productos (snd (ejecutar ?ps bd_vacia)))
          \<and> ((\<forall>pid. DELETE pid \<notin> set ?ps) \<longrightarrow>
                length l = length (filter (\<lambda>r. fst r = 201) (fst (ejecutar ?ps bd_vacia))))"
    by (rule conjunct2)
  then obtain l where
    1: "fst (obtener_productos (snd (ejecutar ?ps bd_vacia))) = (200, Lista l)" and
    2: "(\<forall>pid. DELETE pid \<notin> set ?ps) \<longrightarrow>
          length l = length (filter (\<lambda>r. fst r = 201) (fst (ejecutar ?ps bd_vacia)))"
    by blast
  from 2 d have 3: "length l = length (filter (\<lambda>r. fst r = 201) (fst (ejecutar ?ps bd_vacia)))"
    by (rule mp)
  from 1 have l: "l = [fila_monitor, fila_monitor\<lparr>producto_id := 2\<rparr>]"
    unfolding e snd_conv o2 by simp
  from 3 have 4: "length (filter (\<lambda>r. fst r = 201) (fst (ejecutar ?ps bd_vacia))) = 2"
    unfolding l by simp
  have 5: "fst (obtener_productos (snd (ejecutar ?ps bd_vacia)))
             = (200, Lista [fila_monitor, fila_monitor\<lparr>producto_id := 2\<rparr>])"
    unfolding e snd_conv by (rule o2)
  show ?thesis by (intro conjI o1 4 5)
qed

end
